theory Spec2Isabelle
  imports Main "HOL-Library.Sublist"
begin

section \<open>Strings: the JavaScript string operations the components call\<close>

text \<open>
  A JavaScript string is a sequence of code units. The strings of the model are the
  sequences of the code units U+0000 to U+00FF (Basic Latin and Latin-1 Supplement), a
  \<open>char\<close> being the code unit of its code. On them \<open>String.prototype.toLowerCase\<close> works
  one code unit at a time: the capital letters are \<open>A\<close>..\<open>Z\<close> (codes 65..90) and the
  capital letters of Latin-1, U+00C0..U+00DE without the multiplication sign U+00D7
  (codes 192..214 and 216..222); the small letter of each has its code plus 32; every
  other code unit stays as it is.
\<close>

definition isUpper :: "char \<Rightarrow> bool" where
  "isUpper c =
     ((65 \<le> (of_char c :: nat) \<and> (of_char c :: nat) \<le> 90)
      \<or> (192 \<le> (of_char c :: nat) \<and> (of_char c :: nat) \<le> 214)
      \<or> (216 \<le> (of_char c :: nat) \<and> (of_char c :: nat) \<le> 222))"

definition toLowerCaseChar :: "char \<Rightarrow> char" where
  "toLowerCaseChar c = (if isUpper c then char_of ((of_char c :: nat) + 32) else c)"

definition toLowerCase :: "string \<Rightarrow> string" where
  "toLowerCase s = map toLowerCaseChar s"

text \<open>
  \<open>s.includes(t)\<close>: \<open>t\<close> occurs in \<open>s\<close> at some position. The scan tries every start
  position from the left; the empty string occurs in every string.
\<close>

fun str_includes :: "string \<Rightarrow> string \<Rightarrow> bool" where
  "str_includes [] t = (t = [])"
| "str_includes (c # cs) t = (prefix t (c # cs) \<or> str_includes cs t)"

text \<open>
  \<open>s.trim()\<close> removes white space and line terminators at both ends. Among the code
  units U+0000 to U+00FF these are tab, line feed, vertical tab, form feed, carriage
  return, space and the no-break space U+00A0 (code 160).
\<close>

definition isWhiteSpace :: "char \<Rightarrow> bool" where
  "isWhiteSpace c = ((of_char c :: nat) \<in> {9, 10, 11, 12, 13, 32, 160})"

definition trim :: "string \<Rightarrow> string" where
  "trim s = rev (dropWhile isWhiteSpace (rev (dropWhile isWhiteSpace s)))"

section \<open>The option model (\<open>Dropdown.tsx\<close>, \<open>Option<T>\<close>)\<close>

text \<open>
  \<open>Option<T>\<close> has the fields \<open>name\<close>, \<open>value\<close> and the optional \<open>description\<close>. The
  optional \<open>metadata\<close> and \<open>icon\<close> are read by no handler and no filter of this file and
  are left out.
\<close>

record 'v Option =
  name :: string
  "value" :: 'v
  description :: "string option"

section \<open>SearchMultiSelectDropdown\<close>

text \<open>
  What a caller's callback receives. JavaScript passes either the whole option object
  (\<open>onSelect(option)\<close> in the search dropdown), a primitive value
  (\<open>onSelect(option.value)\<close> in the default dropdown) or \<open>null\<close>.
\<close>

datatype 'v arg = Null | Prim 'v | Obj "'v Option"

datatype 'v call = OnSelect "'v arg" | OnCreateLabel string

text \<open>
  The state of a widget: the \<open>useState\<close> cell \<open>isOpen\<close> and the log of the calls made to
  the caller's callbacks, oldest first. The search dropdown adds the cell \<open>searchTerm\<close>.
  Both cells start as \<open>useState(false)\<close> and \<open>useState("")\<close>.
\<close>

record 'v widget =
  isOpen :: bool
  calls :: "'v call list"

record 'v search_widget = "'v widget" +
  searchTerm :: string

definition initialSearch :: "'v search_widget" where
  "initialSearch = \<lparr>isOpen = False, calls = [], searchTerm = []\<rparr>"

text \<open>Lines 73-75: \<open>options.filter(o => o.name.toLowerCase().includes(searchTerm.toLowerCase()))\<close>.\<close>

definition filteredOptions :: "'v Option list \<Rightarrow> string \<Rightarrow> 'v Option list" where
  "filteredOptions opts s =
     filter (\<lambda>option. str_includes (toLowerCase (name option)) (toLowerCase s)) opts"

text \<open>Lines 104-111: the input's \<open>onChange\<close>; a string is truthy when it is not empty.\<close>

definition onChange :: "string \<Rightarrow> 'v search_widget \<Rightarrow> 'v search_widget" where
  "onChange v st = (if v \<noteq> [] then st\<lparr>searchTerm := v, isOpen := True\<rparr>
                    else st\<lparr>searchTerm := v, isOpen := False\<rparr>)"

text \<open>
  Lines 67-71: \<open>handleSelect\<close> passes the option itself to \<open>onSelect\<close>, closes the menu
  and clears the search term.
\<close>

definition handleSelect :: "'v Option \<Rightarrow> 'v search_widget \<Rightarrow> 'v search_widget" where
  "handleSelect option st =
     st\<lparr>calls := calls st @ [OnSelect (Obj option)], isOpen := False, searchTerm := []\<rparr>"

text \<open>
  Lines 77-93: the document's \<open>mousedown\<close> listener. A ref is \<open>None\<close> while its element is
  not mounted; a mounted element is given by the set of nodes it contains
  (\<open>element.contains(target)\<close>). The menu is closed only when both refs are mounted and
  the target is in neither.
\<close>

definition handleClickOutside ::
  "'n set option \<Rightarrow> 'n set option \<Rightarrow> 'n \<Rightarrow> 'v search_widget \<Rightarrow> 'v search_widget" where
  "handleClickOutside dropdownRef dropdownMenuRef target st =
     (case dropdownRef of
        None \<Rightarrow> st
      | Some d \<Rightarrow>
          if target \<notin> d then
            (case dropdownMenuRef of
               None \<Rightarrow> st
             | Some m \<Rightarrow> if target \<notin> m then st\<lparr>isOpen := False\<rparr> else st)
          else st)"

text \<open>
  The refs as React leaves them after a render: the outer \<open>div\<close> (line 98) is always
  mounted, the menu (lines 139-142, a portal under \<open>document.body\<close>) only while the
  widget is open.
\<close>

definition dropdownRef_current :: "'n set \<Rightarrow> 'v search_widget \<Rightarrow> 'n set option" where
  "dropdownRef_current anchor st = Some anchor"

definition dropdownMenuRef_current :: "'n set \<Rightarrow> 'v search_widget \<Rightarrow> 'n set option" where
  "dropdownMenuRef_current panel st = (if isOpen st then Some panel else None)"

text \<open>Line 112, the input's \<open>onFocus\<close>, and line 133, the toggle button's \<open>onClick\<close>.\<close>

definition onFocus :: "'v search_widget \<Rightarrow> 'v search_widget" where
  "onFocus st = st\<lparr>isOpen := True\<rparr>"

definition toggleClick :: "'v search_widget \<Rightarrow> 'v search_widget" where
  "toggleClick st = st\<lparr>isOpen := \<not> isOpen st\<rparr>"

text \<open>
  Lines 178-199: the "Create label" row. It is rendered when \<open>onCreateLabel\<close> is given
  (the flag \<open>hasCreate\<close>), the trimmed term is not empty and no filtered option has the
  term as its name up to case. Its \<open>onClick\<close> passes the term as typed.
\<close>

definition createOffered :: "bool \<Rightarrow> 'v Option list \<Rightarrow> string \<Rightarrow> bool" where
  "createOffered hasCreate opts s =
     (hasCreate \<and> trim s \<noteq> [] \<and>
      \<not> list_ex (\<lambda>option. toLowerCase (name option) = toLowerCase s) (filteredOptions opts s))"

definition createClick :: "'v search_widget \<Rightarrow> 'v search_widget" where
  "createClick st =
     st\<lparr>calls := calls st @ [OnCreateLabel (searchTerm st)], isOpen := False, searchTerm := []\<rparr>"

text \<open>Lines 201-206: the "No matches found" row.\<close>

definition noMatchesShown :: "bool \<Rightarrow> 'v Option list \<Rightarrow> string \<Rightarrow> bool" where
  "noMatchesShown hasCreate opts s =
     (length (filteredOptions opts s) = 0 \<and> (\<not> hasCreate \<or> trim s = []))"

text \<open>
  Lines 139-210: what the menu shows. Nothing is rendered while the widget is closed;
  an open menu lists one row for each filtered option, then the create row, then the
  "No matches found" row, each under its condition. An option's row is drawn by
  \<open>itemComponent\<close> when that is given and by \<open>StandardDropdownOption\<close> otherwise; clicked,
  either one runs \<open>handleSelect\<close> on its option.
\<close>

datatype 'v row = OptionRow "'v Option" | CreateRow string | NoMatchesFound

definition menuRows :: "bool \<Rightarrow> 'v Option list \<Rightarrow> string \<Rightarrow> 'v row list" where
  "menuRows hasCreate opts s =
     map OptionRow (filteredOptions opts s)
     @ (if createOffered hasCreate opts s then [CreateRow s] else [])
     @ (if noMatchesShown hasCreate opts s then [NoMatchesFound] else [])"

definition renderMenu :: "bool \<Rightarrow> 'v Option list \<Rightarrow> 'v search_widget \<Rightarrow> 'v row list option" where
  "renderMenu hasCreate opts st =
     (if isOpen st then Some (menuRows hasCreate opts (searchTerm st)) else None)"

text \<open>The events of the search dropdown and the handler each one runs.\<close>

datatype ('v, 'n) event =
    ClickOption "'v Option"
  | ClickCreate
  | MouseDown "'n set option" "'n set option" 'n
  | InputChange string
  | InputFocus
  | ClickToggle

fun step :: "('v, 'n) event \<Rightarrow> 'v search_widget \<Rightarrow> 'v search_widget" where
  "step (ClickOption option) st = handleSelect option st"
| "step ClickCreate st = createClick st"
| "step (MouseDown dropdownRef dropdownMenuRef target) st =
     handleClickOutside dropdownRef dropdownMenuRef target st"
| "step (InputChange v) st = onChange v st"
| "step InputFocus st = onFocus st"
| "step ClickToggle st = toggleClick st"

section \<open>CustomDropdown\<close>

text \<open>
  Lines 227-241: one ref, on the outer \<open>div\<close> (line 244). The floating panel
  (lines 247-256) is a child of that \<open>div\<close>, rendered while the widget is open, so the
  nodes the ref contains are those of the anchor and, while open, those of the panel.
\<close>

definition handleClickOutside_custom :: "'n set option \<Rightarrow> 'n \<Rightarrow> 'v widget \<Rightarrow> 'v widget" where
  "handleClickOutside_custom dropdownRef target st =
     (case dropdownRef of
        None \<Rightarrow> st
      | Some d \<Rightarrow> if target \<notin> d then st\<lparr>isOpen := False\<rparr> else st)"

definition customRef_current :: "'n set \<Rightarrow> 'n set \<Rightarrow> 'v widget \<Rightarrow> 'n set option" where
  "customRef_current anchor panel st = Some (anchor \<union> (if isOpen st then panel else {}))"

section \<open>DefaultDropdown\<close>

text \<open>
  An optional boolean prop is \<open>None\<close> when the caller leaves it out; \<open>undefined\<close> and
  \<open>false\<close> are falsy.
\<close>

definition truthy :: "bool option \<Rightarrow> bool" where
  "truthy b = (b = Some True)"

text \<open>Lines 343-346: \<open>handleSelect\<close> passes the value it is given to \<open>onSelect\<close> and closes.\<close>

definition handleSelect_default :: "'v arg \<Rightarrow> 'v widget \<Rightarrow> 'v widget" where
  "handleSelect_default v st = st\<lparr>calls := calls st @ [OnSelect v], isOpen := False\<rparr>"

text \<open>
  Line 410: the wrapping \<open>div\<close> toggles on every click that reaches it; \<open>isOpen\<close> is the
  value of the render the handler was created in. A click on a row first runs the row's
  \<open>onSelect\<close> and then, if it bubbles to the wrapping \<open>div\<close>, the toggle of the same
  render; the later \<open>setIsOpen\<close> wins.
\<close>

definition wrapperClick :: "bool \<Rightarrow> 'v widget \<Rightarrow> 'v widget" where
  "wrapperClick renderedOpen st = st\<lparr>isOpen := \<not> renderedOpen\<rparr>"

text \<open>
  Lines 385-405: the rows of the popover. Each row carries its label, the argument its
  \<open>onSelect\<close> hands to \<open>handleSelect\<close> and its \<open>isSelected\<close> flag. With \<open>includeDefault\<close>
  the row "Default" comes first: it selects \<open>null\<close> and is marked when nothing is selected.
\<close>

record 'v default_row =
  row_name :: string
  row_arg :: "'v arg"
  row_isSelected :: bool

definition defaultRow :: "'v option \<Rightarrow> 'v default_row" where
  "defaultRow selected = \<lparr>row_name = ''Default'', row_arg = Null, row_isSelected = (selected = None)\<rparr>"

definition optionRow :: "'v option \<Rightarrow> 'v Option \<Rightarrow> 'v default_row" where
  "optionRow selected option =
     \<lparr>row_name = name option, row_arg = Prim (value option),
      row_isSelected = (Some (value option) = selected)\<rparr>"

definition dropdownRows :: "bool option \<Rightarrow> 'v Option list \<Rightarrow> 'v option \<Rightarrow> 'v default_row list" where
  "dropdownRows includeDefault opts selected =
     (if truthy includeDefault then [defaultRow selected] else []) @ map (optionRow selected) opts"

definition rowClick :: "'v default_row \<Rightarrow> 'v widget \<Rightarrow> 'v widget" where
  "rowClick r st = handleSelect_default (row_arg r) st"

section \<open>StarterMessages (\<open>StarterMessage.tsx\<close>)\<close>

text \<open>
  A persona's \<open>starter_messages\<close> may be absent; so may the settings context and its
  \<open>isMobile\<close> flag. A rendered button shows the starter message's name and submits its
  message when clicked.
\<close>

record StarterMessage =
  name_starter :: string
  message :: string

record Persona =
  starter_messages :: "StarterMessage list option"

record SettingsContext =
  isMobile :: "bool option"

record button =
  label :: string
  onClick_submit :: string

definition starterButton :: "StarterMessage \<Rightarrow> button" where
  "starterButton starterMessage =
     \<lparr>label = name_starter starterMessage, onClick_submit = message starterMessage\<rparr>"

definition StarterMessages :: "SettingsContext option \<Rightarrow> Persona option \<Rightarrow> button list" where
  "StarterMessages settings currentPersona =
     (let mobile = truthy (case settings of None \<Rightarrow> None | Some c \<Rightarrow> isMobile c) in
      case currentPersona of
        None \<Rightarrow> []
      | Some persona \<Rightarrow>
          (case starter_messages persona of
             None \<Rightarrow> []
           | Some msgs \<Rightarrow>
               if length msgs > 0
               then map starterButton (take (if mobile then 2 else 4) msgs)
               else []))"

section \<open>RootLayout (the root layout of the web application)\<close>

text \<open>
  Modelled from the spec: the declaration of \<open>GatingType\<close> (\<open>./admin/settings/interfaces\<close>)
  is not among the sources. The layout reads its members \<open>NONE\<close> and \<open>FULL\<close>; the spec's
  gating check returns one of no restriction and fully restricted.
\<close>

datatype GatingType = NONE | FULL

record Settings =
  product_gating :: "GatingType option"

record CombinedSettings =
  settings :: Settings
  customAnalyticsScript :: "string option"

record 'a AssistantData =
  assistants :: "'a list"
  hasAnyConnectors :: bool
  hasImageCompatibleModel :: bool

text \<open>
  What the layout puts inside the page: a notice (the card's heading and its paragraphs,
  as the text a viewer reads) or the application under \<open>AppProvider\<close> with its props.
\<close>

datatype ('u, 'a, 'c) content =
    Notice string "string list"
  | AppProvider 'u CombinedSettings "'a list" bool bool 'c

record ('u, 'a, 'c) page =
  analyticsScript :: "string option"
  gtmScript :: bool
  body :: "('u, 'a, 'c) content"

text \<open>
  Lines 139-182: \<open>getPageContent\<close> wraps the content in the page. The head carries the
  custom analytics script when the flag is set and the settings have a non-empty one,
  and the tag manager script when its flag is set. The two flags are constants of
  \<open>@/lib/constants\<close> and are parameters here.
\<close>

definition getPageContent ::
  "bool \<Rightarrow> bool \<Rightarrow> CombinedSettings option \<Rightarrow> ('u, 'a, 'c) content \<Rightarrow> ('u, 'a, 'c) page" where
  "getPageContent CUSTOM_ANALYTICS_ENABLED GTM_ENABLED combinedSettings c =
     \<lparr>analyticsScript =
        (if CUSTOM_ANALYTICS_ENABLED then
           (case combinedSettings of
              None \<Rightarrow> None
            | Some cs \<Rightarrow>
                (case customAnalyticsScript cs of
                   None \<Rightarrow> None
                 | Some script \<Rightarrow> if script \<noteq> [] then Some script else None))
         else None),
      gtmScript = GTM_ENABLED,
      body = c\<rparr>"

text \<open>Lines 186-226: the notice shown when the settings could not be loaded.\<close>

definition configErrorNotice :: "('u, 'a, 'c) content" where
  "configErrorNotice =
     Notice ''Error''
       [''Your Onyx instance was not configured properly and your settings could not be loaded. This could be due to an admin configuration issue, an incomplete setup, or backend services that may not be up and running yet.'',
        ''If you're an admin, please check our docs to see how to configure Onyx properly. If you're a user, please contact your admin to fix this error.'',
        ''For additional support and guidance, you can reach out to our community on Slack.'']"

text \<open>Lines 232-254: the notice shown when the product gating is \<open>FULL\<close>.\<close>

definition accessRestrictedNotice :: "('u, 'a, 'c) content" where
  "accessRestrictedNotice =
     Notice ''Access Restricted''
       [''We regret to inform you that your access to Onyx has been temporarily suspended due to a lapse in your subscription.'',
        ''To reinstate your access and continue benefiting from Onyx's powerful features, please update your payment information.'',
        ''If you're an admin, you can resolve this by visiting the billing section. For other users, please reach out to your administrator to address this matter.'']"

text \<open>
  Lines 125-275: \<open>RootLayout\<close>. \<open>fetchSettingsSS n\<close> is what the call number \<open>n\<close> (from 0) of
  \<open>fetchSettingsSS()\<close> would return, \<open>None\<close> for \<open>null\<close>; the layout makes the one call of
  line 131. The result is the page and the number of calls of \<open>fetchSettingsSS\<close> made.
\<close>

definition RootLayout ::
  "bool \<Rightarrow> bool \<Rightarrow> (nat \<Rightarrow> CombinedSettings option) \<Rightarrow> 'a AssistantData \<Rightarrow> 'u \<Rightarrow> 'c
   \<Rightarrow> ('u, 'a, 'c) page \<times> nat" where
  "RootLayout CUSTOM_ANALYTICS_ENABLED GTM_ENABLED fetchSettingsSS assistantsData user children =
     (let combinedSettings = fetchSettingsSS 0;
          productGating =
            (case combinedSettings of
               None \<Rightarrow> NONE
             | Some cs \<Rightarrow> (case product_gating (settings cs) of None \<Rightarrow> NONE | Some g \<Rightarrow> g));
          wrap = getPageContent CUSTOM_ANALYTICS_ENABLED GTM_ENABLED combinedSettings
      in case combinedSettings of
           None \<Rightarrow> (wrap configErrorNotice, 1)
         | Some cs \<Rightarrow>
             if productGating = FULL then (wrap accessRestrictedNotice, 1)
             else (wrap (AppProvider user cs (assistants assistantsData)
                           (hasAnyConnectors assistantsData)
                           (hasImageCompatibleModel assistantsData) children), 1))"

text \<open>The paragraphs of a notice; the application shell has none.\<close>

fun paragraphs :: "('u, 'a, 'c) content \<Rightarrow> string list" where
  "paragraphs (Notice heading ps) = ps"
| "paragraphs (AppProvider user cs as c i children) = []"

section \<open>The filter, as the specification words it\<close>








section \<open>Properties of the string operations\<close>























lemma NoMatchesFound_in_menuRows:
  "NoMatchesFound \<in> set (menuRows hasCreate opts s) \<longleftrightarrow> noMatchesShown hasCreate opts s"
  by (auto simp: menuRows_def)

section \<open>The filterable select list\<close>


text \<open>The first scenario of the specification: the term \<open>al\<close> keeps \<open>Alpha\<close> and drops \<open>Beta\<close>.\<close>

lemma filteredOptions_scenario:
  "filteredOptions [\<lparr>name = ''Alpha'', value = (1::nat), description = None\<rparr>,
                    \<lparr>name = ''Beta'', value = 2, description = None\<rparr>] ''al''
     = [\<lparr>name = ''Alpha'', value = 1, description = None\<rparr>]"
  by code_simp

section \<open>Selecting an option\<close>

text \<open>
  C2, as the code has it. Selecting an option calls \<open>onSelect\<close> exactly once and closes the
  widget. \<open>SearchMultiSelectDropdown\<close> hands the callback the option object itself and
  clears the search term; \<open>DefaultDropdown\<close> hands it the option's value and has no search
  term. The row's click may bubble to the wrapping \<open>div\<close> of \<open>DefaultDropdown\<close>, whose
  toggle belongs to a render with the popover open: the widget is closed either way.
\<close>

theorem select_invokes_callback_once_and_closes:
  "calls (handleSelect option st) = calls st @ [OnSelect (Obj option)]
   \<and> \<not> isOpen (handleSelect option st)
   \<and> searchTerm (handleSelect option st) = []
   \<and> calls (rowClick (optionRow selected option) w) = calls w @ [OnSelect (Prim (value option))]
   \<and> \<not> isOpen (rowClick (optionRow selected option) w)
   \<and> \<not> isOpen (wrapperClick True (rowClick (optionRow selected option) w))"
  by (simp add: handleSelect_def rowClick_def optionRow_def handleSelect_default_def
      wrapperClick_def)

text \<open>
  C2, as the claim states it, fails for the search dropdown: selecting \<open>Alpha\<close> (value 1)
  in a fresh widget does not call \<open>onSelect\<close> with the value 1, but with the option.
\<close>

theorem search_select_passes_option_counterexample:
  "calls (handleSelect \<lparr>name = ''Alpha'', value = (1::nat), description = None\<rparr> initialSearch)
     \<noteq> calls initialSearch @ [OnSelect (Prim (value \<lparr>name = ''Alpha'', value = (1::nat), description = None\<rparr>))]"
  by (simp add: handleSelect_def initialSearch_def)

section \<open>The create-new row\<close>



text \<open>
  Two menus of the search dropdown with \<open>onCreateLabel\<close> given. For the option named
  U+00C9 (E with acute) and the term U+00E9 (e with acute) the option's row is shown and
  no create row, as the two are one letter. For a term of one no-break space and no
  options the menu shows "No matches found" and no create row.
\<close>

lemma renderMenu_latin1_scenario:
  "renderMenu True [\<lparr>name = [CHR 0xC9], value = (1::nat), description = None\<rparr>]
       \<lparr>isOpen = True, calls = [], searchTerm = [CHR 0xE9]\<rparr>
     = Some [OptionRow \<lparr>name = [CHR 0xC9], value = 1, description = None\<rparr>]"
  by code_simp

lemma renderMenu_no_break_space_scenario:
  "renderMenu True ([] :: nat Option list) \<lparr>isOpen = True, calls = [], searchTerm = [CHR 0xA0]\<rparr>
     = Some [NoMatchesFound]"
  by code_simp


section \<open>Outside clicks\<close>

text \<open>
  C4. A \<open>mousedown\<close> delivered to an open widget, with the refs as the render left them:
  a target outside both the anchor and the floating panel closes the widget, a target
  inside either leaves the state as it is. This holds for \<open>SearchMultiSelectDropdown\<close>
  (two refs) and for \<open>CustomDropdown\<close> (one ref around both regions). A ref that is not
  mounted makes the handler return the state unchanged.
\<close>

theorem outside_mousedown_closes_open_widget:
  assumes "isOpen st" and "isOpen w"
  shows
  "(target \<notin> anchor \<and> target \<notin> panel \<longrightarrow>
      \<not> isOpen (handleClickOutside (dropdownRef_current anchor st)
                 (dropdownMenuRef_current panel st) target st)
      \<and> \<not> isOpen (handleClickOutside_custom (customRef_current anchor panel w) target w))
   \<and> (target \<in> anchor \<or> target \<in> panel \<longrightarrow>
      handleClickOutside (dropdownRef_current anchor st)
        (dropdownMenuRef_current panel st) target st = st
      \<and> handleClickOutside_custom (customRef_current anchor panel w) target w = w)
   \<and> handleClickOutside None dropdownMenuRef target st = st
   \<and> handleClickOutside dropdownRef None target st = st
   \<and> handleClickOutside_custom None target w = w"
  using assms
  by (auto simp: handleClickOutside_def handleClickOutside_custom_def dropdownRef_current_def
      dropdownMenuRef_current_def customRef_current_def split: option.splits)

theorem outside_mousedown_witness:
  "isOpen (\<lparr>isOpen = True, calls = [], searchTerm = ''ab''\<rparr> :: nat search_widget)
   \<and> \<not> isOpen (handleClickOutside (Some {1::nat}) (Some {2}) 3
                (\<lparr>isOpen = True, calls = [], searchTerm = ''ab''\<rparr> :: nat search_widget))
   \<and> isOpen (handleClickOutside (Some {1::nat}) (Some {2}) 2
                (\<lparr>isOpen = True, calls = [], searchTerm = ''ab''\<rparr> :: nat search_widget))
   \<and> \<not> isOpen (handleClickOutside_custom (Some {1::nat, 2}) 3 (\<lparr>isOpen = True, calls = []\<rparr> :: nat widget))
   \<and> isOpen (handleClickOutside_custom (Some {1::nat, 2}) 2 (\<lparr>isOpen = True, calls = []\<rparr> :: nat widget))"
proof -
  let ?st = "\<lparr>isOpen = True, calls = [], searchTerm = ''ab''\<rparr> :: nat search_widget"
  let ?w = "\<lparr>isOpen = True, calls = []\<rparr> :: nat widget"
  have o: "isOpen ?st" "isOpen ?w" by simp_all
  from outside_mousedown_closes_open_widget [OF o, where target = "3::nat" and anchor = "{1}" and panel = "{2}"]
    outside_mousedown_closes_open_widget [OF o, where target = "2::nat" and anchor = "{1}" and panel = "{2}"]
  show ?thesis
    by (simp add: dropdownRef_current_def dropdownMenuRef_current_def customRef_current_def
        insert_commute)
qed

section \<open>The sentinel row of DefaultDropdown\<close>

text \<open>
  C5. With \<open>includeDefault\<close> enabled the row "Default" comes before the rows of all
  options; selecting it calls \<open>onSelect\<close> once, with \<open>null\<close> and with no option's value, and
  closes the dropdown.
\<close>

theorem default_row_selects_null:
  "truthy includeDefault \<Longrightarrow>
     dropdownRows includeDefault opts selected = defaultRow selected # map (optionRow selected) opts
     \<and> row_name (defaultRow selected) = ''Default''
     \<and> calls (rowClick (defaultRow selected) st) = calls st @ [OnSelect Null]
     \<and> OnSelect (Prim (value option)) \<notin> set (drop (length (calls st)) (calls (rowClick (defaultRow selected) st)))
     \<and> \<not> isOpen (rowClick (defaultRow selected) st)
     \<and> \<not> isOpen (wrapperClick True (rowClick (defaultRow selected) st))"
  by (simp add: dropdownRows_def defaultRow_def rowClick_def handleSelect_default_def
      wrapperClick_def)

theorem default_row_selects_null_witness:
  "truthy (Some True)
   \<and> dropdownRows (Some True) [\<lparr>name = ''Alpha'', value = (1::nat), description = None\<rparr>] (Some 1)
       = [\<lparr>row_name = ''Default'', row_arg = Null, row_isSelected = False\<rparr>,
          \<lparr>row_name = ''Alpha'', row_arg = Prim 1, row_isSelected = True\<rparr>]
   \<and> calls (rowClick (defaultRow (Some (1::nat))) \<lparr>isOpen = True, calls = []\<rparr>) = [OnSelect Null]
   \<and> \<not> isOpen (rowClick (defaultRow (Some (1::nat))) \<lparr>isOpen = True, calls = []\<rparr>)"
  using default_row_selects_null [where includeDefault = "Some True"
      and opts = "[\<lparr>name = ''Alpha'', value = (1::nat), description = None\<rparr>]"
      and selected = "Some 1" and st = "\<lparr>isOpen = True, calls = []\<rparr>"
      and option = "\<lparr>name = ''Alpha'', value = (1::nat), description = None\<rparr>"]
  by (simp add: truthy_def defaultRow_def optionRow_def)

section \<open>The "No matches found" row\<close>

text \<open>
  C6. The open menu shows "No matches found" exactly when the filtered list is empty and
  the create row is not offered; in particular, when the filtered list is empty and
  there is no creation callback or the search term is empty, the menu is rendered and
  consists of that row alone. Rendering returns rows and calls no callback: the empty
  result is not an error.
\<close>

theorem no_matches_indicator:
  "(NoMatchesFound \<in> set (menuRows hasCreate opts s)
      \<longleftrightarrow> filteredOptions opts s = [] \<and> \<not> createOffered hasCreate opts s)
   \<and> (isOpen st \<and> filteredOptions opts (searchTerm st) = [] \<and> (\<not> hasCreate \<or> searchTerm st = [])
        \<longrightarrow> renderMenu hasCreate opts st = Some [NoMatchesFound])"
proof -
  have a: "noMatchesShown hasCreate opts s
      \<longleftrightarrow> filteredOptions opts s = [] \<and> \<not> createOffered hasCreate opts s"
    by (auto simp: noMatchesShown_def createOffered_def)
  have b: "renderMenu hasCreate opts st = Some [NoMatchesFound]"
    if "isOpen st" "filteredOptions opts (searchTerm st) = []" "\<not> hasCreate \<or> searchTerm st = []"
    using that
    by (auto simp: renderMenu_def menuRows_def noMatchesShown_def createOffered_def trim_def)
  from a b show ?thesis by (simp add: NoMatchesFound_in_menuRows)
qed

theorem no_matches_indicator_witness:
  "filteredOptions [\<lparr>name = ''Alpha'', value = (1::nat), description = None\<rparr>] ''zz'' = []
   \<and> renderMenu False [\<lparr>name = ''Alpha'', value = (1::nat), description = None\<rparr>]
        \<lparr>isOpen = True, calls = [], searchTerm = ''zz''\<rparr> = Some [NoMatchesFound]"
proof -
  have f: "filteredOptions [\<lparr>name = ''Alpha'', value = (1::nat), description = None\<rparr>] ''zz'' = []"
    by code_simp
  with no_matches_indicator [where hasCreate = False
      and opts = "[\<lparr>name = ''Alpha'', value = (1::nat), description = None\<rparr>]"
      and st = "\<lparr>isOpen = True, calls = [], searchTerm = ''zz''\<rparr>"]
  show ?thesis by simp
qed

section \<open>Typing in the search input\<close>

text \<open>
  C7. After an input change the search dropdown is open exactly when the new content of
  the input is not empty: a change that empties the input closes the widget, any other
  change opens it or keeps it open. The search term becomes the new content.
\<close>

theorem onChange_open_iff_nonempty:
  "(isOpen (onChange v st) \<longleftrightarrow> v \<noteq> [])
   \<and> searchTerm (onChange v st) = v
   \<and> calls (onChange v st) = calls st"
  by (simp add: onChange_def)

theorem onChange_witness:
  "\<not> isOpen (onChange [] (\<lparr>isOpen = True, calls = [], searchTerm = ''a''\<rparr> :: nat search_widget))
   \<and> isOpen (onChange ''ab'' (\<lparr>isOpen = False, calls = [], searchTerm = ''a''\<rparr> :: nat search_widget))"
  using onChange_open_iff_nonempty [of "[]" "\<lparr>isOpen = True, calls = [], searchTerm = ''a''\<rparr> :: nat search_widget"]
    onChange_open_iff_nonempty [of "''ab''" "\<lparr>isOpen = False, calls = [], searchTerm = ''a''\<rparr> :: nat search_widget"]
  by simp

section \<open>RootLayout without settings\<close>

lemma body_getPageContent: "body (getPageContent ca gtm combinedSettings c) = c"
  by (simp add: getPageContent_def)

lemma configErrorNotice_admin:
  "list_ex (\<lambda>p. str_includes p ''If you're an admin, please check our docs'')
     (paragraphs configErrorNotice)"
  by (simp add: configErrorNotice_def)

lemma configErrorNotice_user:
  "list_ex (\<lambda>p. str_includes p ''If you're a user, please contact your admin'')
     (paragraphs configErrorNotice)"
  by (simp add: configErrorNotice_def)

text \<open>
  C8. When the settings fetch yields no settings, \<open>RootLayout\<close> renders the error notice
  in place of the application shell; the notice tells an admin to check the docs and a
  user to contact the admin. The fetch is made once: whatever a second call would
  return is not asked for.
\<close>

theorem missing_settings_render_error_notice:
  assumes "fetchSettingsSS 0 = None"
  shows
  "RootLayout ca gtm fetchSettingsSS assistantsData user children
     = (getPageContent ca gtm None configErrorNotice, 1)
   \<and> body (fst (RootLayout ca gtm fetchSettingsSS assistantsData user children)) = configErrorNotice
   \<and> snd (RootLayout ca gtm fetchSettingsSS assistantsData user children) = 1
   \<and> list_ex (\<lambda>p. str_includes p ''If you're an admin, please check our docs'')
        (paragraphs (body (fst (RootLayout ca gtm fetchSettingsSS assistantsData user children))))
   \<and> list_ex (\<lambda>p. str_includes p ''If you're a user, please contact your admin'')
        (paragraphs (body (fst (RootLayout ca gtm fetchSettingsSS assistantsData user children))))"
proof -
  have r: "RootLayout ca gtm fetchSettingsSS assistantsData user children
     = (getPageContent ca gtm None configErrorNotice, 1)"
    using assms by (simp add: RootLayout_def Let_def)
  show ?thesis
    unfolding r fst_conv snd_conv body_getPageContent
    using configErrorNotice_admin configErrorNotice_user by simp
qed

theorem missing_settings_witness:
  "body (fst (RootLayout True True
      (\<lambda>n. if n = 0 then None
            else Some \<lparr>settings = \<lparr>product_gating = Some NONE\<rparr>, customAnalyticsScript = None\<rparr>)
      \<lparr>assistants = [1::nat], hasAnyConnectors = True, hasImageCompatibleModel = False\<rparr>
      (7::nat) ''children''))
     = configErrorNotice
   \<and> snd (RootLayout True True
      (\<lambda>n. if n = 0 then None
            else Some \<lparr>settings = \<lparr>product_gating = Some NONE\<rparr>, customAnalyticsScript = None\<rparr>)
      \<lparr>assistants = [1::nat], hasAnyConnectors = True, hasImageCompatibleModel = False\<rparr>
      (7::nat) ''children'') = 1"
proof -
  let ?f = "\<lambda>n::nat. if n = 0 then None
            else Some \<lparr>settings = \<lparr>product_gating = Some NONE\<rparr>, customAnalyticsScript = None\<rparr>"
  have h: "?f 0 = None" by simp
  from missing_settings_render_error_notice [where fetchSettingsSS = ?f and ca = True
      and gtm = True
      and assistantsData = "\<lparr>assistants = [1::nat], hasAnyConnectors = True, hasImageCompatibleModel = False\<rparr>"
      and user = "7::nat" and children = "''children''", OF h]
  show ?thesis by blast
qed

section \<open>What an outside click leaves alone\<close>

text \<open>
  C9. In \<open>SearchMultiSelectDropdown\<close> the \<open>mousedown\<close> handler changes at most \<open>isOpen\<close>: the
  search term and the callback log stay as they were. Of all events of the widget, only
  selecting an option, activating the create row and an input change can change the
  search term.
\<close>

theorem outside_mousedown_keeps_search_term:
  "handleClickOutside dropdownRef dropdownMenuRef target st
     = st\<lparr>isOpen := isOpen (handleClickOutside dropdownRef dropdownMenuRef target st)\<rparr>
   \<and> searchTerm (handleClickOutside dropdownRef dropdownMenuRef target st) = searchTerm st
   \<and> calls (handleClickOutside dropdownRef dropdownMenuRef target st) = calls st
   \<and> (searchTerm (step e st) \<noteq> searchTerm st \<longrightarrow>
        (\<exists>option. e = ClickOption option) \<or> e = ClickCreate \<or> (\<exists>v. e = InputChange v))"
proof -
  have "searchTerm (step e st) \<noteq> searchTerm st \<longrightarrow>
        (\<exists>option. e = ClickOption option) \<or> e = ClickCreate \<or> (\<exists>v. e = InputChange v)"
    by (cases e)
      (simp_all add: handleClickOutside_def onFocus_def toggleClick_def split: option.splits)
  moreover have "handleClickOutside dropdownRef dropdownMenuRef target st
     = st\<lparr>isOpen := isOpen (handleClickOutside dropdownRef dropdownMenuRef target st)\<rparr>"
    by (simp add: handleClickOutside_def split: option.splits)
  moreover have "searchTerm (handleClickOutside dropdownRef dropdownMenuRef target st) = searchTerm st"
    by (simp add: handleClickOutside_def split: option.splits)
  moreover have "calls (handleClickOutside dropdownRef dropdownMenuRef target st) = calls st"
    by (simp add: handleClickOutside_def split: option.splits)
  ultimately show ?thesis by blast
qed

theorem outside_mousedown_keeps_search_term_witness:
  "searchTerm (step (ClickOption \<lparr>name = ''Alpha'', value = (1::nat), description = None\<rparr> :: (nat, nat) event)
       \<lparr>isOpen = True, calls = [], searchTerm = ''ab''\<rparr>)
     \<noteq> searchTerm (\<lparr>isOpen = True, calls = [], searchTerm = ''ab''\<rparr> :: nat search_widget)
   \<and> searchTerm (handleClickOutside (Some {1::nat}) (Some {2}) 3
        (\<lparr>isOpen = True, calls = [], searchTerm = ''ab''\<rparr> :: nat search_widget)) = ''ab''
   \<and> \<not> isOpen (handleClickOutside (Some {1::nat}) (Some {2}) 3
        (\<lparr>isOpen = True, calls = [], searchTerm = ''ab''\<rparr> :: nat search_widget))"
  using outside_mousedown_keeps_search_term [where dropdownRef = "Some {1::nat}"
      and dropdownMenuRef = "Some {2}" and target = 3
      and st = "\<lparr>isOpen = True, calls = [], searchTerm = ''ab''\<rparr> :: nat search_widget"
      and e = "ClickOption \<lparr>name = ''Alpha'', value = (1::nat), description = None\<rparr> :: (nat, nat) event"]
  by (simp add: handleSelect_def handleClickOutside_def)

section \<open>Starter messages\<close>

text \<open>
  C10. \<open>StarterMessages\<close> renders one button for each of the first two starter messages
  when the mobile flag is set and for each of the first four otherwise, in the order
  of the persona's list: at most two, or four, buttons, a prefix of the list. Without a
  persona, without a list or with an empty list it renders no button.
\<close>

theorem starter_messages_prefix:
  "StarterMessages ctx currentPersona
     = map starterButton
         (take (if truthy (case ctx of None \<Rightarrow> None | Some c \<Rightarrow> isMobile c) then 2 else 4)
            (case currentPersona of None \<Rightarrow> []
             | Some persona \<Rightarrow> (case starter_messages persona of None \<Rightarrow> [] | Some msgs \<Rightarrow> msgs)))
   \<and> length (StarterMessages ctx currentPersona)
       \<le> (if truthy (case ctx of None \<Rightarrow> None | Some c \<Rightarrow> isMobile c) then 2 else 4)
   \<and> prefix (StarterMessages ctx (Some \<lparr>starter_messages = Some msgs\<rparr>)) (map starterButton msgs)
   \<and> StarterMessages ctx None = []
   \<and> StarterMessages ctx (Some \<lparr>starter_messages = None\<rparr>) = []
   \<and> StarterMessages ctx (Some \<lparr>starter_messages = Some []\<rparr>) = []"
proof -
  have "prefix (map starterButton (take n msgs)) (map starterButton msgs)" for n
    by (metis append_take_drop_id map_append prefixI)
  then show ?thesis
    by (simp add: StarterMessages_def Let_def split: option.splits)
qed

theorem starter_messages_prefix_witness:
  "StarterMessages (Some \<lparr>isMobile = Some True\<rparr>)
     (Some \<lparr>starter_messages = Some
        [\<lparr>name_starter = ''a'', message = ''ma''\<rparr>, \<lparr>name_starter = ''b'', message = ''mb''\<rparr>,
         \<lparr>name_starter = ''c'', message = ''mc''\<rparr>]\<rparr>)
     = [\<lparr>label = ''a'', onClick_submit = ''ma''\<rparr>, \<lparr>label = ''b'', onClick_submit = ''mb''\<rparr>]"
  using starter_messages_prefix [where ctx = "Some \<lparr>isMobile = Some True\<rparr>"
      and currentPersona = "Some \<lparr>starter_messages = Some
        [\<lparr>name_starter = ''a'', message = ''ma''\<rparr>, \<lparr>name_starter = ''b'', message = ''mb''\<rparr>,
         \<lparr>name_starter = ''c'', message = ''mc''\<rparr>]\<rparr>"]
  by (simp add: truthy_def starterButton_def)

end
